theory Spec2Isabelle
  imports Main "HOL-Library.List_Lexorder" "HOL-Library.AList" "HOL-Library.Multiset"
begin

section \<open>Python values\<close>

text \<open>
  A Python \<open>str\<close> is a sequence of Unicode code points, a \<open>bytes\<close> object a sequence of
  octets. Both are lists of naturals here; \<open>py\<close> turns an ASCII literal of the source into
  its code points. Python compares strings lexicographically by code point, which is the
  order that the lexicographic list order gives to \<open>nat list\<close>.
\<close>

type_synonym pystr = "nat list"
type_synonym bytes = "nat list"

definition py :: "string \<Rightarrow> pystr" where
  "py s = map of_char s"

text \<open>An instance of \<open>Exception\<close>; \<open>str(e)\<close> is its message.\<close>

datatype exn = Exn pystr

fun str_exn :: "exn \<Rightarrow> pystr" where
  "str_exn (Exn m) = m"

text \<open>\<open>f"{i}"\<close> for a non-negative integer: its decimal digits.\<close>

fun str_of_nat :: "nat \<Rightarrow> pystr" where
  "str_of_nat n = (if n < 10 then [48 + n] else str_of_nat (n div 10) @ [48 + n mod 10])"

declare str_of_nat.simps [simp del]

text \<open>The number that a string of decimal digits denotes, to read such a string back.\<close>

definition decimal_value :: "pystr \<Rightarrow> nat" where
  "decimal_value ds = foldl (\<lambda>a d. 10 * a + (d - 48)) 0 ds"

text \<open>
  \<open>str.isspace\<close> on one code point, as \<open>str.strip\<close> and \<open>str.rstrip\<close> use it.
\<close>

definition is_space :: "nat \<Rightarrow> bool" where
  "is_space c \<longleftrightarrow> (9 \<le> c \<and> c \<le> 13) \<or> (28 \<le> c \<and> c \<le> 32) \<or> c = 133 \<or> c = 160 \<or>
     c = 5760 \<or> (8192 \<le> c \<and> c \<le> 8202) \<or> c = 8232 \<or> c = 8233 \<or> c = 8239 \<or>
     c = 8287 \<or> c = 12288"

definition rstrip :: "pystr \<Rightarrow> pystr" where
  "rstrip s = rev (dropWhile is_space (rev s))"

definition strip :: "pystr \<Rightarrow> pystr" where
  "strip s = dropWhile is_space (rstrip s)"

text \<open>\<open>sep.join(xs)\<close>.\<close>

fun join :: "pystr \<Rightarrow> pystr list \<Rightarrow> pystr" where
  "join sep [] = []"
| "join sep [x] = x"
| "join sep (x # y # ys) = x @ sep @ join sep (y # ys)"

section \<open>Paths\<close>

text \<open>
  A \<open>pathlib.Path\<close> is absolute here (the scripts call \<open>expanduser().resolve()\<close> on
  their configured roots, and every other path is built from those): the list of its
  components below the root directory \<open>/\<close>. \<open>str(p)\<close> joins them with \<open>/\<close>; paths
  themselves compare by their component lists, as \<open>PurePath.__lt__\<close> does.
\<close>

type_synonym path = "pystr list"

definition str_of_path :: "path \<Rightarrow> pystr" where
  "str_of_path p = (if p = [] then [47] else concat (map (\<lambda>c. 47 # c) p))"

definition name_of :: "path \<Rightarrow> pystr" where
  "name_of p = (if p = [] then [] else last p)"

definition parent :: "path \<Rightarrow> path" where
  "parent p = butlast p"

text \<open>\<open>s.rfind(".")\<close>: the index of the last dot, if there is one.\<close>

definition rfind_dot :: "pystr \<Rightarrow> nat option" where
  "rfind_dot s =
     (if 46 \<in> set s then Some (length s - 1 - length (takeWhile (\<lambda>c. c \<noteq> 46) (rev s)))
      else None)"

text \<open>
  \<open>PurePath.stem\<close>: the name without its last suffix; a leading or a trailing dot is
  not a suffix separator.
\<close>

definition stem_of_name :: "pystr \<Rightarrow> pystr" where
  "stem_of_name nm =
     (case rfind_dot nm of
        None \<Rightarrow> nm
      | Some i \<Rightarrow> if 0 < i \<and> i + 1 < length nm then take i nm else nm)"

definition stem :: "path \<Rightarrow> pystr" where
  "stem p = stem_of_name (name_of p)"

text \<open>\<open>p.relative_to(root)\<close> raises \<open>ValueError\<close> when \<open>p\<close> is not below \<open>root\<close>.\<close>

definition relative_to :: "path \<Rightarrow> path \<Rightarrow> exn + path" where
  "relative_to p root =
     (if take (length root) p = root then Inr (drop (length root) p)
      else Inl (Exn (str_of_path p @ py '' is not in the subpath of '' @ str_of_path root)))"

text \<open>The pattern \<open>*.pdf\<close> of \<open>rglob\<close>: the name ends in \<open>.pdf\<close>.\<close>

definition match_pdf :: "pystr \<Rightarrow> bool" where
  "match_pdf nm \<longleftrightarrow> 4 \<le> length nm \<and> drop (length nm - 4) nm = py ''.pdf''"

section \<open>The file system\<close>

text \<open>
  The file system is a finite table from paths to nodes. The root directory always
  exists. Text files hold the text written to them.
\<close>

datatype node = File pystr | Dir

type_synonym fs = "(path \<times> node) list"

definition lookup :: "fs \<Rightarrow> path \<Rightarrow> node option" where
  "lookup t p = (if p = [] then Some Dir else map_of t p)"

definition exists_path :: "fs \<Rightarrow> path \<Rightarrow> bool" where
  "exists_path t p \<longleftrightarrow> lookup t p \<noteq> None"

definition is_dir :: "fs \<Rightarrow> path \<Rightarrow> bool" where
  "is_dir t p \<longleftrightarrow> lookup t p = Some Dir"

definition is_file :: "fs \<Rightarrow> path \<Rightarrow> bool" where
  "is_file t p \<longleftrightarrow> (case lookup t p of Some (File c) \<Rightarrow> True | _ \<Rightarrow> False)"

text \<open>
  \<open>Path.mkdir(parents=True, exist_ok=True)\<close>: every missing ancestor and the directory
  itself are created; an ancestor (or the path itself) that is a regular file makes
  \<open>os.mkdir\<close> raise. \<open>mkdirs\<close> walks the ancestors from the top.
\<close>

fun mkdirs :: "fs \<Rightarrow> path list \<Rightarrow> exn + fs" where
  "mkdirs t [] = Inr t"
| "mkdirs t (d # ds) =
     (case lookup t d of
        Some Dir \<Rightarrow> mkdirs t ds
      | Some (File c) \<Rightarrow> Inl (Exn (py ''File exists: '' @ str_of_path d))
      | None \<Rightarrow> mkdirs (AList.update d Dir t) ds)"

definition ancestors_and_self :: "path \<Rightarrow> path list" where
  "ancestors_and_self p = map (\<lambda>n. take n p) [1..<Suc (length p)]"

definition mkdir_parents :: "fs \<Rightarrow> path \<Rightarrow> exn + fs" where
  "mkdir_parents t p = mkdirs t (ancestors_and_self p)"

text \<open>
  \<open>p.open("w")\<close> creates or truncates the file; it raises when the parent is not a
  directory or the path is a directory.
\<close>

definition open_w :: "fs \<Rightarrow> path \<Rightarrow> exn + fs" where
  "open_w t p =
     (if p \<noteq> [] \<and> is_dir t (parent p) \<and> \<not> is_dir t p then Inr (AList.update p (File []) t)
      else Inl (Exn (py ''cannot open for writing: '' @ str_of_path p)))"

text \<open>The content of an open file once it is closed.\<close>

definition store :: "fs \<Rightarrow> path \<Rightarrow> pystr \<Rightarrow> fs" where
  "store t p c = AList.update p (File c) t"

text \<open>\<open>p.read_text()\<close> and \<open>p.open("r")\<close> raise unless the path is a regular file.\<close>

definition read_text :: "fs \<Rightarrow> path \<Rightarrow> exn + pystr" where
  "read_text t p =
     (case lookup t p of
        Some (File c) \<Rightarrow> Inr c
      | _ \<Rightarrow> Inl (Exn (py ''cannot read: '' @ str_of_path p)))"

text \<open>
  \<open>root.rglob("*.pdf")\<close>: nothing when the root is not a directory; otherwise every
  entry below the root that is reached through directories and whose name matches.
\<close>

definition reachable_from :: "fs \<Rightarrow> path \<Rightarrow> path \<Rightarrow> bool" where
  "reachable_from t root p \<longleftrightarrow>
     length root < length p \<and> take (length root) p = root \<and>
     (\<forall>n \<in> set [length root..<length p]. is_dir t (take n p))"

definition rglob_pdf :: "fs \<Rightarrow> path \<Rightarrow> path list" where
  "rglob_pdf t root =
     (if is_dir t root
      then filter (\<lambda>p. reachable_from t root p \<and> match_pdf (name_of p)) (remdups (map fst t))
      else [])"

section \<open>The world outside the scripts\<close>

text \<open>
  The state the scripts act on: the file system, the lines printed so far and the
  commands handed to \<open>subprocess.run\<close> so far.
\<close>

record world =
  files :: fs
  printed :: "pystr list"
  calls :: "pystr list list"

definition print_line :: "pystr \<Rightarrow> world \<Rightarrow> world" where
  "print_line l w = w\<lparr>printed := printed w @ [l]\<rparr>"

text \<open>
  \<open>subprocess.run(cmd, stdout=PIPE, stderr=PIPE, check=False)\<close> either raises (the
  program is not found, a permission is missing, ...) or returns a completed process
  with its return code and the two captured byte strings.
\<close>

datatype proc = Raises exn | Exits int bytes bytes

text \<open>
  The collaborators the scripts call and do not implement. Each is a parameter:
  \<^item> \<open>which\<close>: whether \<open>shutil.which\<close> finds a command;
  \<^item> \<open>subprocess_run\<close>: the outcome of running a command and what the command did to
    the file system;
  \<^item> \<open>decode\<close>: \<open>bytes.decode(errors="ignore")\<close>, which never raises;
  \<^item> \<open>fitz_open\<close>: \<open>fitz.open\<close> on a path string; it raises or gives the pages, and
    \<open>get_text\<close> of a page raises or gives its text;
  \<^item> \<open>docx_document\<close>: building a \<open>Document\<close> from paragraphs and serialising it in
    \<open>save\<close>; it raises or gives the bytes, and writes nothing when it raises;
  \<^item> \<open>load_text_file\<close>: the words that
    \<open>spell.word_frequency.load_text_file(spell.word_frequency.filename)\<close> loads, \<open>None\<close>
    when that statement raises;
  \<^item> \<open>spell_unknown\<close>, \<open>spell_candidates\<close>: \<open>SpellChecker.unknown\<close> and
    \<open>SpellChecker.candidates\<close> for a checker holding the given words (a Python set is
    listed in its iteration order; \<open>candidates\<close> may return \<open>None\<close>);
  \<^item> \<open>unicode_nd\<close>: the decimal digits of Unicode beyond Latin-1, which \<open>\d\<close> matches
    besides \<open>0-9\<close>;
  \<^item> \<open>as_completed\<close>: the order in which the submitted jobs complete.
\<close>

record env =
  which :: "pystr \<Rightarrow> bool"
  subprocess_run :: "pystr list \<Rightarrow> fs \<Rightarrow> proc \<times> fs"
  decode :: "bytes \<Rightarrow> pystr"
  fitz_open :: "pystr \<Rightarrow> fs \<Rightarrow> exn + (exn + pystr) list"
  docx_document :: "pystr list \<Rightarrow> exn + pystr"
  load_text_file :: "pystr list option"
  spell_unknown :: "pystr list \<Rightarrow> pystr list \<Rightarrow> pystr list"
  spell_candidates :: "pystr list \<Rightarrow> pystr \<Rightarrow> pystr list option"
  unicode_nd :: "nat \<Rightarrow> bool"
  as_completed :: "path list \<Rightarrow> path list"

text \<open>The configuration constants at the top of each script.\<close>

record config =
  INPUT_DIR :: path
  OUTPUT_DIR :: path
  WORKERS :: nat
  CUSTOM_DICT_FILE :: path

section \<open>The external-process wrapper\<close>

text \<open>
  \<^verbatim>\<open>
  def run_cmd(cmd_list):
      try:
          proc = subprocess.run(cmd_list, stdout=subprocess.PIPE, stderr=subprocess.PIPE, check=False)
          out = (proc.stdout or b"").decode(errors="ignore") + (proc.stderr or b"").decode(errors="ignore")
          return proc.returncode == 0, out
      except Exception as e:
          return False, str(e)
  \<close>
  \<open>x or b""\<close> is \<open>x\<close> for a bytes object \<open>x\<close>.
\<close>

definition bytes_or_empty :: "bytes \<Rightarrow> bytes" where
  "bytes_or_empty b = (if b = [] then [] else b)"

definition run_cmd :: "env \<Rightarrow> pystr list \<Rightarrow> world \<Rightarrow> (bool \<times> pystr) \<times> world" where
  "run_cmd E cmd_list w =
     (case subprocess_run E cmd_list (files w) of (p, t) \<Rightarrow>
        ((case p of
            Raises e \<Rightarrow> (False, str_exn e)
          | Exits rc out err \<Rightarrow>
              (rc = 0, decode E (bytes_or_empty out) @ decode E (bytes_or_empty err))),
         w\<lparr>files := t, calls := calls w @ [cmd_list]\<rparr>))"

text \<open>The same wrapper in \<open>ocr.py\<close>, which decodes the captured output directly.\<close>

definition run_cmd_ocr :: "env \<Rightarrow> pystr list \<Rightarrow> world \<Rightarrow> (bool \<times> pystr) \<times> world" where
  "run_cmd_ocr E cmd w =
     (case subprocess_run E cmd (files w) of (p, t) \<Rightarrow>
        ((case p of
            Raises e \<Rightarrow> (False, str_exn e)
          | Exits rc out err \<Rightarrow> (rc = 0, decode E out @ decode E err)),
         w\<lparr>files := t, calls := calls w @ [cmd]\<rparr>))"

section \<open>The stages of \<open>high_accuracy_ocr_pipeline.py\<close>\<close>

definition OCRMYPDF_BASE_ARGS :: "pystr list" where
  "OCRMYPDF_BASE_ARGS =
     [py ''ocrmypdf'', py ''--force-ocr'', py ''--deskew'', py ''--remove-background'',
      py ''--clean'', py ''--clean-final'', py ''--rotate-pages'', py ''--image-dpi'',
      py ''400'', py ''-l'', py ''eng'']"

definition ocr_to_searchable :: "env \<Rightarrow> path \<Rightarrow> path \<Rightarrow> world \<Rightarrow> (bool \<times> pystr) \<times> world" where
  "ocr_to_searchable E pdf_path searchable_path w =
     run_cmd E (OCRMYPDF_BASE_ARGS @ [str_of_path pdf_path, str_of_path searchable_path]) w"

text \<open>
  \<^verbatim>\<open>
  for i, page in enumerate(doc, start=1):
      text = page.get_text()  # selectable text
      f.write(f"--- PAGE {i} ---\n")
      if text:
          f.write(text)
      else:
          f.write("[NO TEXT ON PAGE]\n")
      f.write("\n\n")
  \<close>
  The loop returns what has been written and the exception that stopped it, if any.
\<close>

fun write_pages :: "nat \<Rightarrow> (exn + pystr) list \<Rightarrow> pystr \<Rightarrow> pystr \<times> exn option" where
  "write_pages i [] f = (f, None)"
| "write_pages i (page # doc) f =
     (case page of
        Inl e \<Rightarrow> (f, Some e)
      | Inr text \<Rightarrow>
          write_pages (Suc i) doc
            (f @ py ''--- PAGE '' @ str_of_nat i @ py '' ---'' @ [10] @
             (if text \<noteq> [] then text else py ''[NO TEXT ON PAGE]'' @ [10]) @ [10, 10]))"

text \<open>
  \<open>extract_text_from_searchable\<close>: \<open>fitz.open\<close> comes first, so a document that cannot be
  opened leaves no text file; once the text file is open, what was written before an
  exception stays in it.
\<close>

definition extract_text_from_searchable :: "env \<Rightarrow> path \<Rightarrow> path \<Rightarrow> world \<Rightarrow> (exn + unit) \<times> world" where
  "extract_text_from_searchable E searchable_pdf out_txt w =
     (case fitz_open E (str_of_path searchable_pdf) (files w) of
        Inl e \<Rightarrow> (Inl e, w)
      | Inr doc \<Rightarrow>
          (case open_w (files w) out_txt of
             Inl e \<Rightarrow> (Inl e, w)
           | Inr t \<Rightarrow>
               (case write_pages 1 doc [] of (f, raised) \<Rightarrow>
                  ((case raised of Some e \<Rightarrow> Inl e | None \<Rightarrow> Inr ()),
                   w\<lparr>files := store t out_txt f\<rparr>))))"

text \<open>
  Splitting a text at line boundaries (\<open>brk\<close> tells which code points end a line; a
  line feed right after a carriage return belongs to the same boundary). The flag says
  that the previous code point was a carriage return.
\<close>

fun split_lines :: "(nat \<Rightarrow> bool) \<Rightarrow> bool \<Rightarrow> pystr \<Rightarrow> pystr \<Rightarrow> pystr list" where
  "split_lines brk cr cur [] = (if cur = [] then [] else [cur])"
| "split_lines brk cr cur (c # cs) =
     (if c = 10 \<and> cr then split_lines brk False cur cs
      else if brk c then cur # split_lines brk (c = 13) [] cs
      else split_lines brk False (cur @ [c]) cs)"

text \<open>Iterating over a file opened in text mode: universal newlines.\<close>

definition file_lines :: "pystr \<Rightarrow> pystr list" where
  "file_lines s = split_lines (\<lambda>c. c = 10 \<or> c = 13) False [] s"

text \<open>\<open>str.splitlines()\<close>.\<close>

definition splitlines :: "pystr \<Rightarrow> pystr list" where
  "splitlines s =
     split_lines (\<lambda>c. (10 \<le> c \<and> c \<le> 13) \<or> (28 \<le> c \<and> c \<le> 30) \<or> c = 133 \<or> c = 8232 \<or> c = 8233)
       False [] s"

text \<open>
  \<^verbatim>\<open>
  def write_docx_from_text(txt_path: Path, docx_path: Path):
      doc = Document()
      with txt_path.open("r", encoding="utf-8", errors="ignore") as f:
          for line in f:
              doc.add_paragraph(line.rstrip())
      doc.save(str(docx_path))
  \<close>
\<close>

definition write_docx_from_text :: "env \<Rightarrow> path \<Rightarrow> path \<Rightarrow> world \<Rightarrow> (exn + unit) \<times> world" where
  "write_docx_from_text E txt_path docx_path w =
     (case read_text (files w) txt_path of
        Inl e \<Rightarrow> (Inl e, w)
      | Inr f \<Rightarrow>
          (case docx_document E (map rstrip (file_lines f)) of
             Inl e \<Rightarrow> (Inl e, w)
           | Inr b \<Rightarrow>
               (case open_w (files w) docx_path of
                  Inl e \<Rightarrow> (Inl e, w)
                | Inr t \<Rightarrow> (Inr (), w\<lparr>files := store t docx_path b\<rparr>))))"

text \<open>
  \<^verbatim>\<open>
  def load_custom_words(path: Path):
      if not path or not path.exists():
          return []
      return [w.strip() for w in path.read_text(encoding="utf-8").splitlines() if w.strip()]
  \<close>
\<close>

definition load_custom_words :: "fs \<Rightarrow> path \<Rightarrow> exn + pystr list" where
  "load_custom_words t p =
     (if \<not> exists_path t p then Inr []
      else (case read_text t p of
              Inl e \<Rightarrow> Inl e
            | Inr s \<Rightarrow> Inr (map strip (filter (\<lambda>w. strip w \<noteq> []) (splitlines s)))))"

section \<open>The token classifier\<close>

text \<open>
  The character class of the tokenizer: \<open>A-Z\<close>, \<open>a-z\<close>, the range from U+00C0 to U+00FF,
  \<open>0-9\<close>, the hyphen and the apostrophe.
\<close>

definition in_class :: "nat \<Rightarrow> bool" where
  "in_class c \<longleftrightarrow> (65 \<le> c \<and> c \<le> 90) \<or> (97 \<le> c \<and> c \<le> 122) \<or> (192 \<le> c \<and> c \<le> 255) \<or>
     (48 \<le> c \<and> c \<le> 57) \<or> c = 45 \<or> c = 39"

text \<open>
  \<open>re.findall(r"[...]{2,}", text)\<close>: the scan collects each maximal run of class
  characters and keeps the runs of length at least 2.
\<close>

definition emit :: "pystr \<Rightarrow> pystr list" where
  "emit run = (if 2 \<le> length run then [run] else [])"

fun findall_run :: "pystr \<Rightarrow> pystr \<Rightarrow> pystr list" where
  "findall_run run [] = emit run"
| "findall_run run (c # cs) =
     (if in_class c then findall_run (run @ [c]) cs else emit run @ findall_run [] cs)"

definition findall_words :: "pystr \<Rightarrow> pystr list" where
  "findall_words text = findall_run [] text"

text \<open>\<open>\d\<close> on one code point.\<close>

definition re_digit :: "env \<Rightarrow> nat \<Rightarrow> bool" where
  "re_digit E c \<longleftrightarrow> (48 \<le> c \<and> c \<le> 57) \<or> (255 < c \<and> unicode_nd E c)"

text \<open>\<open>re.match(r'^\d+$', w)\<close>: \<open>$\<close> also matches before a final line feed.\<close>

definition match_numeric :: "env \<Rightarrow> pystr \<Rightarrow> bool" where
  "match_numeric E w =
     (let body = (if w \<noteq> [] \<and> last w = 10 then butlast w else w)
      in body \<noteq> [] \<and> list_all (re_digit E) body)"

text \<open>\<open>re.search(r'\d', w) and re.search(r'[A-Za-z]', w)\<close>.\<close>

definition ascii_letter :: "nat \<Rightarrow> bool" where
  "ascii_letter c \<longleftrightarrow> (65 \<le> c \<and> c \<le> 90) \<or> (97 \<le> c \<and> c \<le> 122)"

definition chemical_like :: "env \<Rightarrow> pystr \<Rightarrow> bool" where
  "chemical_like E w \<longleftrightarrow> list_ex (re_digit E) w \<and> list_ex ascii_letter w"

text \<open>
  The words of the checker: \<open>SpellChecker(language=None)\<close> starts empty, the attempt to
  load the English list is allowed to fail, then the custom words are added.
\<close>

definition checker_words :: "env \<Rightarrow> pystr list \<Rightarrow> pystr list" where
  "checker_words E custom_words =
     (case load_text_file E of None \<Rightarrow> [] | Some ws \<Rightarrow> ws) @ custom_words"

text \<open>
  \<^verbatim>\<open>
  for w in sorted(unknown):
      if re.search(r'\d', w) and re.search(r'[A-Za-z]', w):
          out.write(f"{w}  (chemical-like token - review manually)\n")
          continue
      sugg = spell.candidates(w)
      out.write(f"{w} -> suggestions: {', '.join(list(sugg)[:5])}\n")
  \<close>
  \<open>list(None)\<close> raises \<open>TypeError\<close>. The loop returns what has been written and the
  exception that stopped it, if any.
\<close>

definition chemical_line :: "pystr \<Rightarrow> pystr" where
  "chemical_line w = w @ py ''  (chemical-like token - review manually)'' @ [10]"

definition suggestion_line :: "pystr \<Rightarrow> pystr list \<Rightarrow> pystr" where
  "suggestion_line w sugg = w @ py '' -> suggestions: '' @ join (py '', '') (take 5 sugg) @ [10]"

fun write_issues :: "env \<Rightarrow> pystr list \<Rightarrow> pystr list \<Rightarrow> pystr \<Rightarrow> pystr \<times> exn option" where
  "write_issues E d [] out = (out, None)"
| "write_issues E d (w # ws) out =
     (if chemical_like E w then write_issues E d ws (out @ chemical_line w)
      else (case spell_candidates E d w of
              None \<Rightarrow> (out, Some (Exn (py ''NoneType object is not iterable'')))
            | Some sugg \<Rightarrow> write_issues E d ws (out @ suggestion_line w sugg)))"

definition issues_header :: pystr where
  "issues_header = py ''Suspicious words and suggestions (automated):'' @ [10, 10]"

text \<open>
  \<open>simple_spellcheck\<close>. The Python sets \<open>candidates\<close> and \<open>unknown\<close> are lists without
  duplicates; \<open>sorted\<close> orders strings by code point.
\<close>

definition spell_candidates_set :: "env \<Rightarrow> pystr \<Rightarrow> pystr list" where
  "spell_candidates_set E text = remdups (filter (\<lambda>w. \<not> match_numeric E w) (findall_words text))"

definition unknown_words :: "env \<Rightarrow> pystr list \<Rightarrow> pystr \<Rightarrow> pystr list" where
  "unknown_words E custom_words text =
     remdups (spell_unknown E (checker_words E custom_words) (spell_candidates_set E text))"

definition simple_spellcheck :: "env \<Rightarrow> path \<Rightarrow> path \<Rightarrow> pystr list \<Rightarrow> world \<Rightarrow> (exn + nat) \<times> world" where
  "simple_spellcheck E txt_path issues_out custom_words w =
     (case read_text (files w) txt_path of
        Inl e \<Rightarrow> (Inl e, w)
      | Inr text \<Rightarrow>
          (let unknown = unknown_words E custom_words text in
           case open_w (files w) issues_out of
             Inl e \<Rightarrow> (Inl e, w)
           | Inr t \<Rightarrow>
               (case write_issues E (checker_words E custom_words) (sort unknown) issues_header
                of (out, raised) \<Rightarrow>
                  ((case raised of Some e \<Rightarrow> Inl e | None \<Rightarrow> Inr (length unknown)),
                   w\<lparr>files := store t issues_out out\<rparr>))))"

section \<open>The per-document pipeline\<close>

definition searchable_of :: "path \<Rightarrow> path \<Rightarrow> path" where
  "searchable_of target_dir pdf_path = target_dir @ [stem pdf_path @ py ''_searchable.pdf'']"

definition txtfile_of :: "path \<Rightarrow> path \<Rightarrow> path" where
  "txtfile_of target_dir pdf_path = target_dir @ [stem pdf_path @ py ''.txt'']"

definition docxfile_of :: "path \<Rightarrow> path \<Rightarrow> path" where
  "docxfile_of target_dir pdf_path = target_dir @ [stem pdf_path @ py ''.docx'']"

definition issuesfile_of :: "path \<Rightarrow> path \<Rightarrow> path" where
  "issuesfile_of target_dir pdf_path = target_dir @ [stem pdf_path @ py ''_issues.txt'']"

text \<open>The stages after the directory has been made and \<open>[START]\<close> printed.\<close>

definition docx_step :: "env \<Rightarrow> path \<Rightarrow> path \<Rightarrow> path \<Rightarrow> world \<Rightarrow> world" where
  "docx_step E pdf_path txtfile docxfile w =
     (case write_docx_from_text E txtfile docxfile w of
        (Inl e, w') \<Rightarrow>
          print_line (py ''[WARN] docx creation failed for '' @ name_of pdf_path @ py '': '' @ str_exn e) w'
      | (Inr u, w') \<Rightarrow> w')"

definition spellcheck_step :: "env \<Rightarrow> path \<Rightarrow> path \<Rightarrow> path \<Rightarrow> pystr list \<Rightarrow> world \<Rightarrow> world" where
  "spellcheck_step E pdf_path txtfile issuesfile custom_words w =
     (case simple_spellcheck E txtfile issuesfile custom_words w of
        (Inl e, w') \<Rightarrow>
          print_line (py ''[WARN] spellcheck failed for '' @ name_of pdf_path @ py '': '' @ str_exn e) w'
      | (Inr num_issues, w') \<Rightarrow>
          print_line (py ''[OK] '' @ name_of pdf_path @ py '' -> text saved ('' @ name_of txtfile @
                      py ''), issues: '' @ str_of_nat num_issues) w')"

definition run_stages :: "env \<Rightarrow> path \<Rightarrow> path \<Rightarrow> pystr list \<Rightarrow> world \<Rightarrow> bool \<times> world" where
  "run_stages E pdf_path target_dir custom_words w =
     (let searchable = searchable_of target_dir pdf_path;
          txtfile = txtfile_of target_dir pdf_path;
          docxfile = docxfile_of target_dir pdf_path;
          issuesfile = issuesfile_of target_dir pdf_path
      in case ocr_to_searchable E pdf_path searchable w of
           ((ok, out), w1) \<Rightarrow>
             if \<not> ok
             then (False, print_line (py ''[ERROR] ocrmypdf failed for '' @ name_of pdf_path @ py '':'' @
                                      [10] @ take 400 (strip out)) w1)
             else (case extract_text_from_searchable E searchable txtfile w1 of
                     (Inl e, w2) \<Rightarrow>
                       (False, print_line (py ''[ERROR] text extraction failed for '' @
                                           name_of pdf_path @ py '': '' @ str_exn e) w2)
                   | (Inr u, w2) \<Rightarrow>
                       (True, spellcheck_step E pdf_path txtfile issuesfile custom_words
                                (docx_step E pdf_path txtfile docxfile w2))))"

text \<open>
  \<open>process_pdf_file\<close>: \<open>relative_to\<close> and \<open>mkdir\<close> are outside every \<open>try\<close>, so their
  exceptions leave the function; every later failure is caught inside it.
\<close>

definition process_pdf_file :: "env \<Rightarrow> path \<Rightarrow> path \<Rightarrow> path \<Rightarrow> pystr list \<Rightarrow> world \<Rightarrow> (exn + bool) \<times> world" where
  "process_pdf_file E pdf_path root out_base custom_words w =
     (case relative_to pdf_path root of
        Inl e \<Rightarrow> (Inl e, w)
      | Inr rel \<Rightarrow>
          (let target_dir = out_base @ parent rel in
           case mkdir_parents (files w) target_dir of
             Inl e \<Rightarrow> (Inl e, w)
           | Inr t \<Rightarrow>
               (case run_stages E pdf_path target_dir custom_words
                       (print_line (py ''[START] '' @ name_of pdf_path) (w\<lparr>files := t\<rparr>))
                of (ok, w') \<Rightarrow> (Inr ok, w'))))"

section \<open>Discovery and the batch\<close>

text \<open>\<open>sorted([p for p in root.rglob("*.pdf") if p.is_file()])\<close>, also \<open>find_pdfs\<close> of \<open>ocr.py\<close>.\<close>

definition find_pdfs :: "fs \<Rightarrow> path \<Rightarrow> path list" where
  "find_pdfs t root = sort (filter (is_file t) (rglob_pdf t root))"

text \<open>How a run of a script ends: \<open>sys.exit(n)\<close>, an uncaught exception, or a return from \<open>main\<close>.\<close>

datatype status = SysExit int | Uncaught exn | Returned

fun exit_code :: "status \<Rightarrow> int" where
  "exit_code (SysExit n) = n"
| "exit_code (Uncaught e) = 1"
| "exit_code Returned = 0"

text \<open>
  \<^verbatim>\<open>
  def check_tools():
      for cmd in ("ocrmypdf", "pdftotext", "tesseract"):
          if not shutil.which(cmd):
              print(f"ERROR: required command not found in PATH: {cmd}")
              sys.exit(1)
  \<close>
  The result is false when the loop left through \<open>sys.exit(1)\<close>.
\<close>

fun check_tools_loop :: "env \<Rightarrow> pystr list \<Rightarrow> world \<Rightarrow> bool \<times> world" where
  "check_tools_loop E [] w = (True, w)"
| "check_tools_loop E (cmd # cmds) w =
     (if \<not> which E cmd
      then (False, print_line (py ''ERROR: required command not found in PATH: '' @ cmd) w)
      else check_tools_loop E cmds w)"

definition check_tools :: "env \<Rightarrow> world \<Rightarrow> bool \<times> world" where
  "check_tools E w = check_tools_loop E [py ''ocrmypdf'', py ''pdftotext'', py ''tesseract''] w"

text \<open>
  \<^verbatim>\<open>
  for fut in tqdm(as_completed(futures), total=len(futures)):
      p = futures[fut]
      try:
          ok = fut.result()
      except Exception as e:
          ok = False
          print(f"[EXCEPTION] {p.name} -> {e}")
      if ok:
          successes += 1
      else:
          fails += 1
  \<close>
  The pool is sequentialised: the jobs run one after the other in the order in which
  they complete, each on the world its predecessor left. The loop takes the documents
  in that order.
\<close>

fun merge_results :: "env \<Rightarrow> path \<Rightarrow> path \<Rightarrow> pystr list \<Rightarrow> path list \<Rightarrow> nat \<Rightarrow> nat \<Rightarrow> world \<Rightarrow> nat \<times> nat \<times> world" where
  "merge_results E root out_base cw [] successes fails w = (successes, fails, w)"
| "merge_results E root out_base cw (p # ps) successes fails w =
     (case process_pdf_file E p root out_base cw w of
        (Inl e, w') \<Rightarrow>
          merge_results E root out_base cw ps successes (Suc fails)
            (print_line (py ''[EXCEPTION] '' @ name_of p @ py '' -> '' @ str_exn e) w')
      | (Inr ok, w') \<Rightarrow>
          if ok then merge_results E root out_base cw ps (Suc successes) fails w'
          else merge_results E root out_base cw ps successes (Suc fails) w')"

text \<open>
  The outcome of each job of the pool, in completion order: the document and whether it
  counts as a success. This is what the loop above observes, kept as a list.
\<close>

fun pool_outcomes :: "env \<Rightarrow> path \<Rightarrow> path \<Rightarrow> pystr list \<Rightarrow> path list \<Rightarrow> world \<Rightarrow> (path \<times> bool) list" where
  "pool_outcomes E root out_base cw [] w = []"
| "pool_outcomes E root out_base cw (p # ps) w =
     (case process_pdf_file E p root out_base cw w of
        (Inl e, w') \<Rightarrow>
          (p, False) # pool_outcomes E root out_base cw ps
            (print_line (py ''[EXCEPTION] '' @ name_of p @ py '' -> '' @ str_exn e) w')
      | (Inr ok, w') \<Rightarrow> (p, ok) # pool_outcomes E root out_base cw ps w')"

definition summary :: "nat \<Rightarrow> nat \<Rightarrow> path \<Rightarrow> world \<Rightarrow> world" where
  "summary successes fails out_base w =
     print_line (py ''Outputs in: '' @ str_of_path out_base)
       (print_line (py ''Success: '' @ str_of_nat successes @ py '' Failed: '' @ str_of_nat fails)
          (print_line ([10] @ py ''Done.'') w))"

text \<open>
  \<open>main\<close> of \<open>high_accuracy_ocr_pipeline.py\<close>. It does not test the input root;
  \<open>out_base.mkdir\<close> and \<open>load_custom_words\<close> are outside every \<open>try\<close>.
\<close>

definition main :: "env \<Rightarrow> config \<Rightarrow> world \<Rightarrow> status \<times> world" where
  "main E C w =
     (case check_tools E w of
        (False, w1) \<Rightarrow> (SysExit 1, w1)
      | (True, w1) \<Rightarrow>
          (let root = INPUT_DIR C; out_base = OUTPUT_DIR C in
           case mkdir_parents (files w1) out_base of
             Inl e \<Rightarrow> (Uncaught e, w1)
           | Inr t \<Rightarrow>
               (case load_custom_words t (CUSTOM_DICT_FILE C) of
                  Inl e \<Rightarrow> (Uncaught e, w1\<lparr>files := t\<rparr>)
                | Inr custom_words \<Rightarrow>
                    (let pdfs = find_pdfs t root in
                     if pdfs = []
                     then (Returned, print_line (py ''No PDFs found under '' @ str_of_path root)
                                       (w1\<lparr>files := t\<rparr>))
                     else (case merge_results E root out_base custom_words (as_completed E pdfs) 0 0
                                  (print_line (py ''Found '' @ str_of_nat (length pdfs) @
                                       py '' PDFs. Processing with '' @ str_of_nat (WORKERS C) @
                                       py '' worker(s).'') (w1\<lparr>files := t\<rparr>))
                           of (successes, fails, w2) \<Rightarrow>
                             (Returned, summary successes fails out_base w2))))))"

section \<open>The script \<open>ocr.py\<close>\<close>

fun check_tools_ocr_loop :: "env \<Rightarrow> pystr list \<Rightarrow> world \<Rightarrow> bool \<times> world" where
  "check_tools_ocr_loop E [] w = (True, w)"
| "check_tools_ocr_loop E (cmd # cmds) w =
     (if \<not> which E cmd
      then (False, print_line (py ''ERROR: '' @ cmd @ py '' not found. Install it before running.'') w)
      else check_tools_ocr_loop E cmds w)"

definition check_tools_ocr :: "env \<Rightarrow> world \<Rightarrow> bool \<times> world" where
  "check_tools_ocr E w = check_tools_ocr_loop E [py ''ocrmypdf'', py ''pdftotext''] w"

text \<open>
  \<open>process_one\<close>: the OCR step passes \<open>--deskew --force-ocr\<close> only, and the text is
  extracted by the external \<open>pdftotext\<close>.
\<close>

definition process_one_cmd :: "path \<Rightarrow> path \<Rightarrow> pystr list" where
  "process_one_cmd pdf_path searchable =
     [py ''ocrmypdf'', py ''--deskew'', py ''--force-ocr'', str_of_path pdf_path, str_of_path searchable]"

definition process_one :: "env \<Rightarrow> path \<Rightarrow> path \<Rightarrow> path \<Rightarrow> world \<Rightarrow> (exn + bool) \<times> world" where
  "process_one E pdf_path root out_root w =
     (case relative_to (parent pdf_path) root of
        Inl e \<Rightarrow> (Inl e, w)
      | Inr rel_parent \<Rightarrow>
          (let target_dir = out_root @ rel_parent in
           case mkdir_parents (files w) target_dir of
             Inl e \<Rightarrow> (Inl e, w)
           | Inr t \<Rightarrow>
               (let searchable = searchable_of target_dir pdf_path;
                    txt_file = txtfile_of target_dir pdf_path
                in case run_cmd_ocr E (process_one_cmd pdf_path searchable)
                          (print_line (py ''[START] '' @ name_of pdf_path) (w\<lparr>files := t\<rparr>)) of
                     ((ok, out), w1) \<Rightarrow>
                       if \<not> ok
                       then (Inr False, print_line (py ''[ERROR] ocrmypdf failed for '' @
                               str_of_path pdf_path @ py '':'' @ [10] @ strip out) w1)
                       else (case run_cmd_ocr E [py ''pdftotext'', str_of_path searchable,
                                                 str_of_path txt_file] w1 of
                               ((ok2, out2), w2) \<Rightarrow>
                                 if \<not> ok2
                                 then (Inr False, print_line (py ''[ERROR] pdftotext failed for '' @
                                         str_of_path searchable @ py '':'' @ [10] @ strip out2) w2)
                                 else (Inr True, print_line (py ''[OK] '' @ name_of pdf_path @
                                         py '' -> '' @ name_of searchable @ py '', '' @
                                         name_of txt_file) w2)))))"

fun merge_results_ocr :: "env \<Rightarrow> path \<Rightarrow> path \<Rightarrow> path list \<Rightarrow> nat \<Rightarrow> nat \<Rightarrow> world \<Rightarrow> nat \<times> nat \<times> world" where
  "merge_results_ocr E root out_base [] success failed w = (success, failed, w)"
| "merge_results_ocr E root out_base (p # ps) success failed w =
     (case process_one E p root out_base w of
        (Inl e, w') \<Rightarrow>
          merge_results_ocr E root out_base ps success (Suc failed)
            (print_line (py ''[EXCEPTION] '' @ str_exn e) w')
      | (Inr ok, w') \<Rightarrow>
          if ok then merge_results_ocr E root out_base ps (Suc success) failed w'
          else merge_results_ocr E root out_base ps success (Suc failed) w')"

definition summary_ocr :: "nat \<Rightarrow> nat \<Rightarrow> path \<Rightarrow> world \<Rightarrow> world" where
  "summary_ocr success failed out_base w =
     print_line (py ''Outputs saved under: '' @ str_of_path out_base)
       (print_line (py ''Success: '' @ str_of_nat success @ py '', Failed: '' @ str_of_nat failed)
          (print_line ([10] @ py ''All done.'') w))"

text \<open>\<open>main\<close> of \<open>ocr.py\<close>: the input root is tested with \<open>root.exists()\<close> first.\<close>

definition main_ocr :: "env \<Rightarrow> config \<Rightarrow> world \<Rightarrow> status \<times> world" where
  "main_ocr E C w =
     (let root = INPUT_DIR C; out_base = OUTPUT_DIR C in
      if \<not> exists_path (files w) root
      then (SysExit 1, print_line (py ''Input folder does not exist: '' @ str_of_path root) w)
      else (case mkdir_parents (files w) out_base of
              Inl e \<Rightarrow> (Uncaught e, w)
            | Inr t \<Rightarrow>
                (case check_tools_ocr E (w\<lparr>files := t\<rparr>) of
                   (False, w1) \<Rightarrow> (SysExit 1, w1)
                 | (True, w1) \<Rightarrow>
                     (let pdfs = find_pdfs (files w1) root in
                      if pdfs = []
                      then (Returned, print_line (py ''No PDFs found under '' @ str_of_path root) w1)
                      else (case merge_results_ocr E root out_base (as_completed E pdfs) 0 0
                                   (print_line (py ''Found '' @ str_of_nat (length pdfs) @
                                        py '' PDF(s) under '' @ str_of_path root @ py ''. Using '' @
                                        str_of_nat (WORKERS C) @ py '' workers.'') w1)
                            of (success, failed, w2) \<Rightarrow>
                              (Returned, summary_ocr success failed out_base w2))))))"

section \<open>What the external tools may write\<close>

text \<open>
  An external command that writes nothing but the file named by its last argument. The
  scripts always pass the output path last. This is an assumption about the tools, used
  where a property speaks of files the tools are not asked to write.
\<close>

definition writes_only_output :: "env \<Rightarrow> bool" where
  "writes_only_output E \<longleftrightarrow>
     (\<forall>cmd t q. cmd \<noteq> [] \<and> str_of_path q \<noteq> last cmd \<longrightarrow>
        lookup (snd (subprocess_run E cmd t)) q = lookup t q)"

section \<open>Example inputs\<close>

text \<open>
  A world with one document \<open>/in/a.pdf\<close> and collaborators that all succeed; the variants
  below replace one collaborator by a failing one.
\<close>

definition example_env :: env where
  "example_env = \<lparr>
     which = (\<lambda>cmd. True),
     subprocess_run = (\<lambda>cmd t. (Exits 0 [] [], t)),
     decode = (\<lambda>b. b),
     fitz_open = (\<lambda>s t. Inr [Inr (py ''H2O the''), Inr []]),
     docx_document = (\<lambda>ps. Inr (concat ps)),
     load_text_file = Some [py ''the''],
     spell_unknown = (\<lambda>d cs. filter (\<lambda>c. c \<notin> set d) cs),
     spell_candidates = (\<lambda>d c. Some d),
     unicode_nd = (\<lambda>c. False),
     as_completed = rev \<rparr>"

definition example_world :: world where
  "example_world = \<lparr>
     files = [([py ''in''], Dir), ([py ''in'', py ''a.pdf''], File [37, 80, 68, 70])],
     printed = [],
     calls = [] \<rparr>"

text \<open>An engine that exits with code 2 and the message \<open>bad\<close> on its standard error.\<close>

definition failing_engine :: "pystr list \<Rightarrow> fs \<Rightarrow> proc \<times> fs" where
  "failing_engine cmd t = (Exits 2 [] [98, 97, 100], t)"

text \<open>A reader that cannot open the searchable copy.\<close>

definition failing_open :: "pystr \<Rightarrow> fs \<Rightarrow> exn + (exn + pystr) list" where
  "failing_open s t = Inl (Exn (py ''cannot open''))"


text \<open>A tree with the documents \<open>/r/a-b/c.pdf\<close> and \<open>/r/a/b.pdf\<close>.\<close>

definition hyphen_tree :: fs where
  "hyphen_tree =
     [([py ''r''], Dir),
      ([py ''r'', py ''a-b''], Dir), ([py ''r'', py ''a-b'', py ''c.pdf''], File []),
      ([py ''r'', py ''a''], Dir), ([py ''r'', py ''a'', py ''b.pdf''], File [])]"

text \<open>
  Configurations: the input root \<open>/in\<close> of the example world, a root that does not exist,
  and a root that is a regular file.
\<close>

definition example_config :: config where
  "example_config = \<lparr> INPUT_DIR = [py ''in''], OUTPUT_DIR = [py ''out''], WORKERS = 2,
     CUSTOM_DICT_FILE = [py ''custom_words.txt''] \<rparr>"

definition missing_config :: config where
  "missing_config = example_config\<lparr>INPUT_DIR := [py ''missing'']\<rparr>"

definition file_config :: config where
  "file_config = example_config\<lparr>INPUT_DIR := [py ''in'', py ''a.pdf'']\<rparr>"

text \<open>
  Tools that succeed, where \<open>pdftotext\<close> writes the text of a one-page document followed
  by a form feed to \<open>/out/a.txt\<close>.
\<close>

definition pdftotext_like :: "pystr list \<Rightarrow> fs \<Rightarrow> proc \<times> fs" where
  "pdftotext_like cmd t =
     (if cmd \<noteq> [] \<and> hd cmd = py ''pdftotext''
      then (Exits 0 [] [], AList.update [py ''out'', py ''a.txt''] (File (py ''Hello'' @ [10, 12])) t)
      else (Exits 0 [] [], t))"


section \<open>Properties of the wrapper and of the file system\<close>

lemma bytes_or_empty_id [simp]: "bytes_or_empty b = b"
  by (simp add: bytes_or_empty_def)

lemma print_line_simps [simp]:
  "files (print_line l w) = files w"
  "calls (print_line l w) = calls w"
  "printed (print_line l w) = printed w @ [l]"
  by (simp_all add: print_line_def)

text \<open>
  Claim C10. For every command list, \<open>run_cmd\<close> (in both scripts) returns a pair: when
  invoking the process raised, the pair is false and the text of the exception; when
  the process completed, it is the test "return code is 0" and the decoded standard
  output followed by the decoded standard error. So the first component is true exactly
  when the process exited with code 0, and no exception leaves the wrapper.
\<close>

theorem run_cmd_total:
  "run_cmd E cmd w =
     (case subprocess_run E cmd (files w) of
        (Raises e, t) \<Rightarrow> ((False, str_exn e), w\<lparr>files := t, calls := calls w @ [cmd]\<rparr>)
      | (Exits rc out err, t) \<Rightarrow>
          ((rc = 0, decode E out @ decode E err), w\<lparr>files := t, calls := calls w @ [cmd]\<rparr>)) \<and>
   (fst (fst (run_cmd E cmd w)) \<longleftrightarrow>
      (\<exists>out err. fst (subprocess_run E cmd (files w)) = Exits 0 out err)) \<and>
   run_cmd_ocr E cmd w = run_cmd E cmd w"
  by (cases "subprocess_run E cmd (files w)"; cases "fst (subprocess_run E cmd (files w))")
     (simp_all add: run_cmd_def run_cmd_ocr_def)

theorem run_cmd_total_witness:
  "fst (fst (run_cmd example_env [py ''ocrmypdf''] example_world)) \<and>
   \<not> fst (fst (run_cmd (example_env\<lparr>subprocess_run := failing_engine\<rparr>) [py ''ocrmypdf''] example_world))"
  using run_cmd_total [of example_env "[py ''ocrmypdf'']" example_world, THEN conjunct2, THEN conjunct1]
    run_cmd_total [of "example_env\<lparr>subprocess_run := failing_engine\<rparr>" "[py ''ocrmypdf'']" example_world,
      THEN conjunct2, THEN conjunct1]
  by (simp add: example_env_def failing_engine_def)

lemma run_cmd_calls [simp]: "calls (snd (run_cmd E cmd w)) = calls w @ [cmd]"
  by (simp add: run_cmd_def split: prod.splits)

lemma run_cmd_printed [simp]: "printed (snd (run_cmd E cmd w)) = printed w"
  by (simp add: run_cmd_def split: prod.splits)

lemma run_cmd_files [simp]: "files (snd (run_cmd E cmd w)) = snd (subprocess_run E cmd (files w))"
  by (simp add: run_cmd_def split: prod.splits)

lemma run_cmd_Exits:
  "fst (subprocess_run E cmd (files w)) = Exits rc out err \<Longrightarrow>
   fst (run_cmd E cmd w) = (rc = 0, decode E out @ decode E err)"
  by (cases "subprocess_run E cmd (files w)") (simp add: run_cmd_def)

lemma run_cmd_Raises:
  "fst (subprocess_run E cmd (files w)) = Raises e \<Longrightarrow>
   fst (run_cmd E cmd w) = (False, str_exn e)"
  by (cases "subprocess_run E cmd (files w)") (simp add: run_cmd_def)

lemma run_cmd_ocr_eq: "run_cmd_ocr E cmd w = run_cmd E cmd w"
  by (simp add: run_cmd_def run_cmd_ocr_def split: prod.splits proc.splits)

lemma extract_calls [simp]:
  "calls (snd (extract_text_from_searchable E s t w)) = calls w"
  by (simp add: extract_text_from_searchable_def split: sum.splits prod.splits option.splits)

lemma write_docx_calls [simp]:
  "calls (snd (write_docx_from_text E a b w)) = calls w"
  by (simp add: write_docx_from_text_def split: sum.splits prod.splits option.splits)

lemma docx_step_calls [simp]: "calls (docx_step E p a b w) = calls w"
proof -
  have "calls (snd (write_docx_from_text E a b w)) = calls w" by simp
  then show ?thesis
    by (cases "write_docx_from_text E a b w"; cases "fst (write_docx_from_text E a b w)")
       (simp_all add: docx_step_def)
qed

lemma simple_spellcheck_calls [simp]:
  "calls (snd (simple_spellcheck E a b cw w)) = calls w"
  by (simp add: simple_spellcheck_def Let_def split: sum.splits prod.splits option.splits)

lemma spellcheck_step_calls [simp]: "calls (spellcheck_step E p a b cw w) = calls w"
proof -
  have "calls (snd (simple_spellcheck E a b cw w)) = calls w" by simp
  then show ?thesis
    by (cases "simple_spellcheck E a b cw w"; cases "fst (simple_spellcheck E a b cw w)")
       (simp_all add: spellcheck_step_def)
qed

lemma run_stages_calls:
  "calls (snd (run_stages E pdf d cw w)) =
   calls w @ [OCRMYPDF_BASE_ARGS @ [str_of_path pdf, str_of_path (searchable_of d pdf)]]"
proof -
  let ?s = "searchable_of d pdf"
  obtain ok out w1 where r: "ocr_to_searchable E pdf ?s w = ((ok, out), w1)"
    by (metis prod.exhaust)
  then have c: "calls w1 = calls w @ [OCRMYPDF_BASE_ARGS @ [str_of_path pdf, str_of_path ?s]]"
    by (metis ocr_to_searchable_def run_cmd_calls snd_conv)
  show ?thesis
  proof (cases ok)
    case False
    then show ?thesis using r c by (simp add: run_stages_def Let_def)
  next
    case True
    obtain x w2 where e: "extract_text_from_searchable E ?s (txtfile_of d pdf) w1 = (x, w2)"
      by (metis prod.exhaust)
    then have "calls w2 = calls w1" by (metis extract_calls snd_conv)
    then show ?thesis using r c e True
      by (cases x) (simp_all add: run_stages_def Let_def)
  qed
qed

lemma lookup_update_other: "q \<noteq> p \<Longrightarrow> lookup (AList.update p v t) q = lookup t q"
  by (simp add: lookup_def update_conv')

lemma lookup_update_same: "p \<noteq> [] \<Longrightarrow> lookup (AList.update p v t) p = Some v"
  by (simp add: lookup_def update_conv')

lemma lookup_store_other: "q \<noteq> p \<Longrightarrow> lookup (store t p c) q = lookup t q"
  by (simp add: store_def lookup_update_other)

lemma lookup_store_same: "p \<noteq> [] \<Longrightarrow> lookup (store t p c) p = Some (File c)"
  by (simp add: store_def lookup_update_same)

lemma open_w_other: "open_w t p = Inr t' \<Longrightarrow> q \<noteq> p \<Longrightarrow> lookup t' q = lookup t q"
  by (auto simp: open_w_def lookup_update_other split: if_splits)

lemma open_w_nonempty: "open_w t p = Inr t' \<Longrightarrow> p \<noteq> []"
  by (auto simp: open_w_def split: if_splits)

lemma mkdirs_other:
  "mkdirs t ds = Inr t' \<Longrightarrow> q \<notin> set ds \<Longrightarrow> lookup t' q = lookup t q"
proof (induction ds arbitrary: t)
  case Nil
  then show ?case by simp
next
  case (Cons d ds)
  show ?case
  proof (cases "lookup t d")
    case None
    with Cons.prems have "mkdirs (AList.update d Dir t) ds = Inr t'" by simp
    then have "lookup t' q = lookup (AList.update d Dir t) q"
      using Cons.IH Cons.prems(2) by simp
    then show ?thesis using Cons.prems(2) by (simp add: lookup_update_other)
  next
    case (Some n)
    with Cons.prems have "n = Dir \<and> mkdirs t ds = Inr t'"
      by (cases n) simp_all
    then show ?thesis using Cons.IH Cons.prems(2) by simp
  qed
qed

lemma not_in_ancestors: "length d < length q \<Longrightarrow> q \<notin> set (ancestors_and_self d)"
  by (auto simp: ancestors_and_self_def)

lemma mkdir_parents_other:
  "mkdir_parents t d = Inr t' \<Longrightarrow> length d < length q \<Longrightarrow> lookup t' q = lookup t q"
  unfolding mkdir_parents_def using mkdirs_other not_in_ancestors by blast

lemma py_length [simp]: "length (py s) = length s"
  by (simp add: py_def)

lemma artifact_names_distinct:
  "searchable_of d p \<noteq> txtfile_of d p" "searchable_of d p \<noteq> docxfile_of d p"
  "searchable_of d p \<noteq> issuesfile_of d p" "txtfile_of d p \<noteq> docxfile_of d p"
  "txtfile_of d p \<noteq> issuesfile_of d p" "docxfile_of d p \<noteq> issuesfile_of d p"
proof -
  have len: "\<And>a b. length a \<noteq> length b \<Longrightarrow> d @ [stem p @ py a] \<noteq> d @ [stem p @ py b]"
    by (metis append1_eq_conv py_length same_append_eq)
  show "searchable_of d p \<noteq> txtfile_of d p" "searchable_of d p \<noteq> docxfile_of d p"
    "searchable_of d p \<noteq> issuesfile_of d p" "txtfile_of d p \<noteq> docxfile_of d p"
    "txtfile_of d p \<noteq> issuesfile_of d p" "docxfile_of d p \<noteq> issuesfile_of d p"
    unfolding searchable_of_def txtfile_of_def docxfile_of_def issuesfile_of_def
    by (rule len, simp)+
qed

lemma artifact_lengths [simp]:
  "length (searchable_of d p) = Suc (length d)" "length (txtfile_of d p) = Suc (length d)"
  "length (docxfile_of d p) = Suc (length d)" "length (issuesfile_of d p) = Suc (length d)"
  by (simp_all add: searchable_of_def txtfile_of_def docxfile_of_def issuesfile_of_def)

lemma str_of_path_snoc: "str_of_path (d @ [n]) = concat (map (\<lambda>c. 47 # c) d) @ 47 # n"
  by (simp add: str_of_path_def)

lemma str_of_path_snoc_inj: "str_of_path (d @ [n]) = str_of_path (d @ [m]) \<longleftrightarrow> n = m"
  by (simp add: str_of_path_snoc)

lemma extract_files_other:
  "q \<noteq> tx \<Longrightarrow> lookup (files (snd (extract_text_from_searchable E s tx w))) q = lookup (files w) q"
  by (auto simp: extract_text_from_searchable_def lookup_store_other open_w_other
      split: sum.splits prod.splits option.splits)


lemma extract_printed [simp]:
  "printed (snd (extract_text_from_searchable E s tx w)) = printed w"
  by (simp add: extract_text_from_searchable_def split: sum.splits prod.splits option.splits)


lemma write_docx_files_other:
  "q \<noteq> dx \<Longrightarrow> lookup (files (snd (write_docx_from_text E tx dx w))) q = lookup (files w) q"
  by (auto simp: write_docx_from_text_def lookup_store_other open_w_other split: sum.splits)

lemma docx_step_files_other:
  "q \<noteq> dx \<Longrightarrow> lookup (files (docx_step E p tx dx w)) q = lookup (files w) q"
  using write_docx_files_other [of q dx E tx w]
  by (cases "write_docx_from_text E tx dx w"; cases "fst (write_docx_from_text E tx dx w)")
     (simp_all add: docx_step_def)



lemma ocr_files_other:
  assumes "writes_only_output E" "m \<noteq> n"
  shows "lookup (files (snd (ocr_to_searchable E pdf (d @ [n]) w))) (d @ [m]) = lookup (files w) (d @ [m])"
proof -
  have "str_of_path (d @ [m]) \<noteq> str_of_path (d @ [n])"
    using assms(2) by (simp add: str_of_path_snoc_inj)
  then show ?thesis
    using assms(1) by (simp add: ocr_to_searchable_def writes_only_output_def)
qed

section \<open>The per-document pipeline: failures\<close>

lemma process_pdf_file_stages:
  assumes "relative_to pdf root = Inr rel"
    and "mkdir_parents (files w) (out_base @ parent rel) = Inr t"
  shows "process_pdf_file E pdf root out_base cw w =
     (Inr (fst (run_stages E pdf (out_base @ parent rel) cw
                  (print_line (py ''[START] '' @ name_of pdf) (w\<lparr>files := t\<rparr>)))),
      snd (run_stages E pdf (out_base @ parent rel) cw
                  (print_line (py ''[START] '' @ name_of pdf) (w\<lparr>files := t\<rparr>))))"
  using assms by (simp add: process_pdf_file_def Let_def split: prod.splits)

lemma run_stages_ocr_failed:
  assumes "\<not> fst (fst (ocr_to_searchable E pdf (searchable_of d pdf) w))"
  shows "fst (run_stages E pdf d cw w) = False"
    and "files (snd (run_stages E pdf d cw w)) =
         files (snd (ocr_to_searchable E pdf (searchable_of d pdf) w))"
  using assms
  by (cases "ocr_to_searchable E pdf (searchable_of d pdf) w";
      cases "fst (ocr_to_searchable E pdf (searchable_of d pdf) w)";
      simp add: run_stages_def Let_def)+

lemma run_stages_extract_failed:
  assumes "fst (fst (ocr_to_searchable E pdf (searchable_of d pdf) w))"
    and "w1 = snd (ocr_to_searchable E pdf (searchable_of d pdf) w)"
    and "isl (fst (extract_text_from_searchable E (searchable_of d pdf) (txtfile_of d pdf) w1))"
  shows "fst (run_stages E pdf d cw w) = False"
    and "files (snd (run_stages E pdf d cw w)) =
         files (snd (extract_text_from_searchable E (searchable_of d pdf) (txtfile_of d pdf) w1))"
  using assms
  by (cases "ocr_to_searchable E pdf (searchable_of d pdf) w";
      cases "fst (ocr_to_searchable E pdf (searchable_of d pdf) w)";
      cases "extract_text_from_searchable E (searchable_of d pdf) (txtfile_of d pdf) w1";
      cases "fst (extract_text_from_searchable E (searchable_of d pdf) (txtfile_of d pdf) w1)";
      simp add: run_stages_def Let_def)+


lemma ocr_artifact_other:
  assumes "writes_only_output E" "q \<in> {txtfile_of d p, docxfile_of d p, issuesfile_of d p}"
  shows "lookup (files (snd (ocr_to_searchable E p (searchable_of d p) w))) q = lookup (files w) q"
proof -
  have n: "stem p @ py ''.txt'' \<noteq> stem p @ py ''_searchable.pdf''"
    "stem p @ py ''.docx'' \<noteq> stem p @ py ''_searchable.pdf''"
    "stem p @ py ''_issues.txt'' \<noteq> stem p @ py ''_searchable.pdf''"
    using artifact_names_distinct(1,2,3) [of d p]
    by (simp_all add: searchable_of_def txtfile_of_def docxfile_of_def issuesfile_of_def)
  show ?thesis
    using assms(2) ocr_files_other [OF assms(1) n(1), of p d w]
      ocr_files_other [OF assms(1) n(2), of p d w] ocr_files_other [OF assms(1) n(3), of p d w]
    unfolding searchable_of_def txtfile_of_def docxfile_of_def issuesfile_of_def
    by auto
qed

lemma started_files_other:
  assumes "mkdir_parents (files w) d = Inr t" "length q = Suc (length d)"
  shows "lookup (files (print_line l (w\<lparr>files := t\<rparr>))) q = lookup (files w) q"
  using mkdir_parents_other [OF assms(1), of q] assms(2) by simp

text \<open>
  Claim C2. Let the external tools write nothing but their output file. For a document
  whose directory has been made: when the OCR Normalizer fails, \<open>process_pdf_file\<close>
  returns \<open>False\<close> and the \<open>.txt\<close>, \<open>.docx\<close> and \<open>_issues.txt\<close> paths of the document
  are as they were before the run; when the Normalizer succeeds and the Text Extractor
  fails, it returns \<open>False\<close>, the \<open>.docx\<close> and \<open>_issues.txt\<close> paths are as they were
  before the run, and the searchable copy is as the Normalizer left it.
\<close>

theorem hard_failure_short_circuit:
  assumes frame: "writes_only_output E"
    and rel: "relative_to pdf root = Inr rel"
    and mk: "mkdir_parents (files w) (out_base @ parent rel) = Inr t"
    and d: "d = out_base @ parent rel"
    and w0: "w0 = print_line (py ''[START] '' @ name_of pdf) (w\<lparr>files := t\<rparr>)"
    and ok: "ok = fst (fst (ocr_to_searchable E pdf (searchable_of d pdf) w0))"
    and w1: "w1 = snd (ocr_to_searchable E pdf (searchable_of d pdf) w0)"
    and r: "r = process_pdf_file E pdf root out_base cw w"
  shows "(\<not> ok \<longrightarrow>
            fst r = Inr False \<and>
            (\<forall>q \<in> {txtfile_of d pdf, docxfile_of d pdf, issuesfile_of d pdf}.
               lookup (files (snd r)) q = lookup (files w) q)) \<and>
         (ok \<and> isl (fst (extract_text_from_searchable E (searchable_of d pdf) (txtfile_of d pdf) w1)) \<longrightarrow>
            fst r = Inr False \<and>
            (\<forall>q \<in> {docxfile_of d pdf, issuesfile_of d pdf}.
               lookup (files (snd r)) q = lookup (files w) q) \<and>
            lookup (files (snd r)) (searchable_of d pdf) = lookup (files w1) (searchable_of d pdf))"
proof -
  have req: "r = (Inr (fst (run_stages E pdf d cw w0)), snd (run_stages E pdf d cw w0))"
    unfolding r d w0 by (rule process_pdf_file_stages [OF rel mk])
  have start: "\<And>q. q \<in> {txtfile_of d pdf, docxfile_of d pdf, issuesfile_of d pdf} \<Longrightarrow>
      lookup (files w0) q = lookup (files w) q"
    unfolding w0 using started_files_other [OF mk [folded d]] by auto
  have after_ocr: "\<And>q. q \<in> {txtfile_of d pdf, docxfile_of d pdf, issuesfile_of d pdf} \<Longrightarrow>
      lookup (files w1) q = lookup (files w) q"
    unfolding w1 using ocr_artifact_other [OF frame] start by simp
  have first: "fst r = Inr False \<and>
      (\<forall>q \<in> {txtfile_of d pdf, docxfile_of d pdf, issuesfile_of d pdf}.
         lookup (files (snd r)) q = lookup (files w) q)" if "\<not> ok"
  proof -
    from that have n: "\<not> fst (fst (ocr_to_searchable E pdf (searchable_of d pdf) w0))"
      by (simp add: ok)
    show ?thesis
      using run_stages_ocr_failed [OF n, of cw] after_ocr by (simp add: req w1)
  qed
  have second: "fst r = Inr False \<and>
      (\<forall>q \<in> {docxfile_of d pdf, issuesfile_of d pdf}.
         lookup (files (snd r)) q = lookup (files w) q) \<and>
      lookup (files (snd r)) (searchable_of d pdf) = lookup (files w1) (searchable_of d pdf)"
    if "ok" and x: "isl (fst (extract_text_from_searchable E (searchable_of d pdf) (txtfile_of d pdf) w1))"
  proof -
    from that have y: "fst (fst (ocr_to_searchable E pdf (searchable_of d pdf) w0))"
      by (simp add: ok)
    note rs = run_stages_extract_failed [OF y w1 x, of cw]
    have "lookup (files (snd r)) q = lookup (files w1) q" if "q \<noteq> txtfile_of d pdf" for q
      using that by (simp add: req rs(2) extract_files_other)
    then show ?thesis
      using rs(1) after_ocr artifact_names_distinct [of d pdf] by (simp add: req)
  qed
  from first second show ?thesis by blast
qed

lemma writes_only_output_example: "writes_only_output example_env"
  by (simp add: writes_only_output_def example_env_def)

lemma writes_only_output_failing:
  "writes_only_output (example_env\<lparr>subprocess_run := failing_engine\<rparr>)"
  by (simp add: writes_only_output_def failing_engine_def)

lemma example_rel: "relative_to [py ''in'', py ''a.pdf''] [py ''in''] = Inr [py ''a.pdf'']"
  by (simp add: relative_to_def)

lemma example_mkdir:
  "mkdir_parents (files example_world) ([py ''out''] @ parent [py ''a.pdf'']) =
   Inr (files example_world @ [([py ''out''], Dir)])"
  by (simp add: mkdir_parents_def ancestors_and_self_def parent_def example_world_def lookup_def py_def)

theorem hard_failure_short_circuit_witness:
  "fst (process_pdf_file (example_env\<lparr>subprocess_run := failing_engine\<rparr>)
          [py ''in'', py ''a.pdf''] [py ''in''] [py ''out''] [] example_world) = Inr False \<and>
   fst (process_pdf_file (example_env\<lparr>fitz_open := failing_open\<rparr>)
          [py ''in'', py ''a.pdf''] [py ''in''] [py ''out''] [] example_world) = Inr False"
proof -
  have a: "\<not> fst (fst (ocr_to_searchable (example_env\<lparr>subprocess_run := failing_engine\<rparr>) p s w))" for p s w
    by (simp add: ocr_to_searchable_def run_cmd_def failing_engine_def)
  have b: "fst (fst (ocr_to_searchable (example_env\<lparr>fitz_open := failing_open\<rparr>) p s w))" for p s w
    by (simp add: ocr_to_searchable_def run_cmd_def example_env_def)
  have c: "isl (fst (extract_text_from_searchable (example_env\<lparr>fitz_open := failing_open\<rparr>) s x w))" for s x w
    by (simp add: extract_text_from_searchable_def failing_open_def)
  have f: "writes_only_output (example_env\<lparr>fitz_open := failing_open\<rparr>)"
    by (simp add: writes_only_output_def example_env_def)
  show ?thesis
    using hard_failure_short_circuit [OF writes_only_output_failing example_rel example_mkdir
        refl refl refl refl refl, of "[]"]
      hard_failure_short_circuit [OF f example_rel example_mkdir refl refl refl refl refl, of "[]"]
      a b c
    by blast
qed




lemma write_pages_texts:
  "write_pages i (map Inr texts) f =
     (f @ concat (map (\<lambda>(n, text). py ''--- PAGE '' @ str_of_nat n @ py '' ---'' @ [10] @
            (if text \<noteq> [] then text else py ''[NO TEXT ON PAGE]'' @ [10]) @ [10, 10])
          (zip [i..<i + length texts] texts)), None)"
proof (induction texts arbitrary: i f)
  case Nil
  then show ?case by simp
next
  case (Cons x xs)
  have "[i..<i + length (x # xs)] = i # [Suc i..<Suc i + length xs]"
    by (simp add: upt_rec)
  then show ?case by (simp add: Cons.IH)
qed

lemma extract_texts:
  assumes "fitz_open E (str_of_path s) (files w) = Inr (map Inr texts)"
    and "open_w (files w) tx = Inr t"
  shows "extract_text_from_searchable E s tx w =
     (Inr (), w\<lparr>files := store t tx (fst (write_pages 1 (map Inr texts) []))\<rparr>)"
  using assms by (simp add: extract_text_from_searchable_def write_pages_texts)



section \<open>Discovery and the batch: properties\<close>

lemma rglob_distinct: "distinct (rglob_pdf t root)"
  by (simp add: rglob_pdf_def)

lemma set_find_pdfs:
  "set (find_pdfs t root) =
     {p \<in> fst ` set t. is_dir t root \<and> reachable_from t root p \<and> match_pdf (name_of p) \<and> is_file t p}"
  by (auto simp: find_pdfs_def rglob_pdf_def)

lemma lookup_cong: "map_of t' = map_of t \<Longrightarrow> lookup t' = lookup t"
  by (rule ext) (simp add: lookup_def)

lemma find_pdfs_listing:
  assumes "distinct (map fst t)" "distinct (map fst t')" "set t' = set t"
  shows "find_pdfs t' root = find_pdfs t root"
proof -
  have "map_of t' = map_of t"
    using assms by (simp add: map_of_inject_set)
  then have l: "lookup t' = lookup t" by (rule lookup_cong)
  then have "is_dir t' = is_dir t" "is_file t' = is_file t" "reachable_from t' = reachable_from t"
    by (auto simp: is_dir_def is_file_def reachable_from_def fun_eq_iff)
  then have "set (find_pdfs t' root) = set (find_pdfs t root)"
    using assms(3) by (simp add: set_find_pdfs)
  moreover have "sorted (find_pdfs t' root)" "sorted (find_pdfs t root)"
    "distinct (find_pdfs t' root)" "distinct (find_pdfs t root)"
    by (simp_all add: find_pdfs_def rglob_distinct)
  ultimately show ?thesis by (simp add: sorted_distinct_set_unique)
qed

text \<open>
  Claim C5, as amended. Discovery returns the regular files below the root that are
  reached through directories and whose name ends in \<open>.pdf\<close>, each once, sorted by the
  order of paths, which compares the lists of path components (each component as a
  string). The result does not depend on the order in which the file system lists its
  entries, and it is the empty list when no such file exists.
\<close>


theorem find_pdfs_sorted_by_components:
  "sorted (find_pdfs t root) \<and> distinct (find_pdfs t root) \<and>
   set (find_pdfs t root) =
     {p \<in> fst ` set t. is_dir t root \<and> reachable_from t root p \<and> match_pdf (name_of p) \<and> is_file t p} \<and>
   (distinct (map fst t) \<and> distinct (map fst t') \<and> set t' = set t \<longrightarrow>
      find_pdfs t' root = find_pdfs t root) \<and>
   ({p \<in> fst ` set t. reachable_from t root p \<and> match_pdf (name_of p) \<and> is_file t p} = {} \<longrightarrow>
      find_pdfs t root = [])"
proof -
  have "find_pdfs t root = []"
    if "{p \<in> fst ` set t. reachable_from t root p \<and> match_pdf (name_of p) \<and> is_file t p} = {}"
  proof -
    from that have "set (find_pdfs t root) = {}" unfolding set_find_pdfs by blast
    then show ?thesis by simp
  qed
  then show ?thesis
    using find_pdfs_listing [of t t' root]
    by (simp add: set_find_pdfs) (simp add: find_pdfs_def rglob_distinct)
qed

lemma hyphen_tree_found:
  "find_pdfs hyphen_tree [py ''r''] = [[py ''r'', py ''a'', py ''b.pdf''], [py ''r'', py ''a-b'', py ''c.pdf'']]"
  by code_simp

text \<open>
  The order is not the order of the full path strings: \<open>-\<close> sorts before \<open>/\<close> in a
  string, while the component \<open>a\<close> sorts before the component \<open>a-b\<close>.
\<close>

theorem find_pdfs_not_sorted_by_string:
  "map str_of_path (find_pdfs hyphen_tree [py ''r'']) = [py ''/r/a/b.pdf'', py ''/r/a-b/c.pdf''] \<and>
   \<not> sorted (map str_of_path (find_pdfs hyphen_tree [py ''r'']))"
  by code_simp

theorem find_pdfs_sorted_by_components_witness:
  "sorted (find_pdfs hyphen_tree [py ''r'']) \<and>
   find_pdfs (rev hyphen_tree) [py ''r''] = find_pdfs hyphen_tree [py ''r''] \<and>
   find_pdfs [([py ''r''], Dir)] [py ''r''] = []"
proof -
  have d: "distinct (map fst hyphen_tree)" by code_simp
  have d': "distinct (map fst (rev hyphen_tree))" by code_simp
  have e: "{p \<in> fst ` set [([py ''r''], Dir)]. reachable_from [([py ''r''], Dir)] [py ''r''] p \<and>
      match_pdf (name_of p) \<and> is_file [([py ''r''], Dir)] p} = {}"
    by (simp add: reachable_from_def)
  show ?thesis
    using find_pdfs_sorted_by_components [of hyphen_tree "[py ''r'']" "rev hyphen_tree"]
      find_pdfs_sorted_by_components [of "[([py ''r''], Dir)]" "[py ''r'']" "[]"] d d' e
    by simp
qed

lemma pool_outcomes_docs: "map fst (pool_outcomes E root out cw ps w) = ps"
  by (induction ps arbitrary: w) (auto split: prod.splits sum.splits)

lemma merge_results_counts:
  "merge_results E root out cw ps s f w = (s', f', w') \<Longrightarrow>
   s' = s + length (filter snd (pool_outcomes E root out cw ps w)) \<and>
   f' = f + length (filter (\<lambda>x. \<not> snd x) (pool_outcomes E root out cw ps w))"
proof (induction ps arbitrary: s f w)
  case Nil
  then show ?case by simp
next
  case (Cons p ps)
  obtain x w1 where r: "process_pdf_file E p root out cw w = (x, w1)"
    by (cases "process_pdf_file E p root out cw w")
  show ?case
  proof (cases x)
    case (Inl e)
    with r Cons.prems Cons.IH [of s "Suc f"] show ?thesis by simp
  next
    case (Inr ok)
    with r Cons.prems Cons.IH [of "Suc s" f w1] Cons.IH [of s "Suc f" w1] show ?thesis
      by (cases ok) simp_all
  qed
qed

lemma check_tools_loop_ok: "fst (check_tools_loop E cmds w) \<Longrightarrow> check_tools_loop E cmds w = (True, w)"
  by (induction cmds) (auto split: if_splits)

lemma check_tools_ok: "fst (check_tools E w) \<Longrightarrow> check_tools E w = (True, w)"
  unfolding check_tools_def by (rule check_tools_loop_ok)

lemma main_no_pdfs:
  assumes "fst (check_tools E w)"
    and "mkdir_parents (files w) (OUTPUT_DIR C) = Inr t"
    and "load_custom_words t (CUSTOM_DICT_FILE C) = Inr cw"
    and "find_pdfs t (INPUT_DIR C) = []"
  shows "main E C w =
     (Returned, print_line (py ''No PDFs found under '' @ str_of_path (INPUT_DIR C)) (w\<lparr>files := t\<rparr>))"
  using assms check_tools_ok [OF assms(1)] by (simp add: main_def)

lemma main_pool:
  assumes "fst (check_tools E w)"
    and "mkdir_parents (files w) (OUTPUT_DIR C) = Inr t"
    and "load_custom_words t (CUSTOM_DICT_FILE C) = Inr cw"
    and "find_pdfs t (INPUT_DIR C) \<noteq> []"
    and "res = merge_results E (INPUT_DIR C) (OUTPUT_DIR C) cw (as_completed E (find_pdfs t (INPUT_DIR C))) 0 0
            (print_line (py ''Found '' @ str_of_nat (length (find_pdfs t (INPUT_DIR C))) @
               py '' PDFs. Processing with '' @ str_of_nat (WORKERS C) @ py '' worker(s).'')
               (w\<lparr>files := t\<rparr>))"
  shows "main E C w = (Returned, summary (fst res) (fst (snd res)) (OUTPUT_DIR C) (snd (snd res)))"
  using assms check_tools_ok [OF assms(1)] by (simp add: main_def Let_def split: prod.splits)

text \<open>
  Claim C1. When \<open>main\<close> reaches the pool (the tools are found, the output directory
  and the custom words are available, some document was discovered) and every submitted
  job completes once, \<open>main\<close> returns with a summary of two counts: the jobs observed as
  successes and the jobs observed as failures. There is one outcome per discovered
  document, and the counts add up to the number of discovered documents. A job that
  raises is an outcome \<open>False\<close> and one more failure; the loop goes on.
\<close>


theorem batch_report_counts:
  assumes tools: "fst (check_tools E w)"
    and mk: "mkdir_parents (files w) (OUTPUT_DIR C) = Inr t"
    and cw: "load_custom_words t (CUSTOM_DICT_FILE C) = Inr cw"
    and pdfs: "pdfs = find_pdfs t (INPUT_DIR C)"
    and ne: "pdfs \<noteq> []"
    and perm: "mset (as_completed E pdfs) = mset pdfs"
    and w0: "w0 = print_line (py ''Found '' @ str_of_nat (length pdfs) @
               py '' PDFs. Processing with '' @ str_of_nat (WORKERS C) @ py '' worker(s).'')
               (w\<lparr>files := t\<rparr>)"
    and outs: "outs = pool_outcomes E (INPUT_DIR C) (OUTPUT_DIR C) cw (as_completed E pdfs) w0"
    and res: "res = merge_results E (INPUT_DIR C) (OUTPUT_DIR C) cw (as_completed E pdfs) 0 0 w0"
  shows "main E C w = (Returned, summary (fst res) (fst (snd res)) (OUTPUT_DIR C) (snd (snd res))) \<and>
         mset (map fst outs) = mset pdfs \<and>
         fst res = length (filter snd outs) \<and>
         fst (snd res) = length (filter (\<lambda>x. \<not> snd x) outs) \<and>
         fst res + fst (snd res) = length pdfs \<and>
         (isl (fst (process_pdf_file E p (INPUT_DIR C) (OUTPUT_DIR C) cw w1)) \<longrightarrow>
            pool_outcomes E (INPUT_DIR C) (OUTPUT_DIR C) cw [p] w1 = [(p, False)] \<and>
            fst (snd (merge_results E (INPUT_DIR C) (OUTPUT_DIR C) cw [p] s f w1)) = Suc f)"
proof -
  have m: "main E C w = (Returned, summary (fst res) (fst (snd res)) (OUTPUT_DIR C) (snd (snd res)))"
    using main_pool [OF tools mk cw] ne unfolding pdfs res w0 by simp
  have docs: "map fst outs = as_completed E pdfs"
    unfolding outs by (rule pool_outcomes_docs)
  then have p: "mset (map fst outs) = mset pdfs" using perm by simp
  obtain s' f' w' where r: "res = (s', f', w')" by (cases res) auto
  then have c: "s' = length (filter snd outs) \<and> f' = length (filter (\<lambda>x. \<not> snd x) outs)"
    using merge_results_counts [of E "INPUT_DIR C" "OUTPUT_DIR C" cw "as_completed E pdfs" 0 0 w0 s' f' w']
    unfolding res outs by simp
  have "length (filter snd outs) + length (filter (\<lambda>x. \<not> snd x) outs) = length outs"
    by (rule sum_length_filter_compl)
  also have "\<dots> = length pdfs"
    using docs perm by (metis length_map size_mset)
  finally have t: "fst res + fst (snd res) = length pdfs" using r c by simp
  have x: "pool_outcomes E (INPUT_DIR C) (OUTPUT_DIR C) cw [p] w1 = [(p, False)] \<and>
      fst (snd (merge_results E (INPUT_DIR C) (OUTPUT_DIR C) cw [p] s f w1)) = Suc f"
    if "isl (fst (process_pdf_file E p (INPUT_DIR C) (OUTPUT_DIR C) cw w1))"
    using that
    by (cases "process_pdf_file E p (INPUT_DIR C) (OUTPUT_DIR C) cw w1";
        cases "fst (process_pdf_file E p (INPUT_DIR C) (OUTPUT_DIR C) cw w1)") simp_all
  from m p c r t x show ?thesis by simp
qed

text \<open>
  Claim C3 at a missing input root, with every tool installed:
  \<open>high_accuracy_ocr_pipeline.py\<close> reports that no PDF was found and returns, so the
  process exits with code 0, while \<open>ocr.py\<close> exits with code 1. When the input root is a
  regular file, \<open>ocr.py\<close> returns as well.
\<close>


theorem main_missing_input_root:
  "fst (main example_env missing_config example_world) = Returned \<and>
   exit_code (fst (main example_env missing_config example_world)) = 0 \<and>
   printed (snd (main example_env missing_config example_world)) = [py ''No PDFs found under /missing''] \<and>
   fst (main_ocr example_env missing_config example_world) = SysExit 1 \<and>
   fst (main_ocr example_env file_config example_world) = Returned"
  by code_simp

theorem batch_report_counts_witness:
  "(\<exists>s f w'. main example_env example_config example_world = (Returned, summary s f [py ''out''] w') \<and>
      s + f = 1) \<and>
   fst (snd (merge_results example_env [py ''in''] [py ''out''] [] [[py ''x.pdf'']] 0 0 example_world)) = Suc 0"
proof -
  let ?t = "files example_world @ [([py ''out''], Dir)]"
  have tools: "fst (check_tools example_env example_world)" by code_simp
  have mk: "mkdir_parents (files example_world) (OUTPUT_DIR example_config) = Inr ?t" by code_simp
  have cw: "load_custom_words ?t (CUSTOM_DICT_FILE example_config) = Inr []" by code_simp
  have pdfs: "[[py ''in'', py ''a.pdf'']] = find_pdfs ?t (INPUT_DIR example_config)" by code_simp
  have perm: "mset (as_completed example_env [[py ''in'', py ''a.pdf'']]) = mset [[py ''in'', py ''a.pdf'']]"
    by (simp add: example_env_def)
  have raised: "isl (fst (process_pdf_file example_env [py ''x.pdf''] (INPUT_DIR example_config)
      (OUTPUT_DIR example_config) [] example_world))"
    by code_simp
  have io: "INPUT_DIR example_config = [py ''in'']" "OUTPUT_DIR example_config = [py ''out'']"
    by (simp_all add: example_config_def)
  note th = batch_report_counts [OF tools mk cw pdfs _ perm refl refl refl,
      of "[py ''x.pdf'']" example_world 0 0, unfolded io]
  have ne: "[[py ''in'', py ''a.pdf'']] \<noteq> ([] :: path list)" by simp
  note a = th [OF ne, THEN conjunct1]
  have b: "fst (merge_results example_env [py ''in''] [py ''out''] []
        (as_completed example_env [[py ''in'', py ''a.pdf'']]) 0 0
        (print_line (py ''Found '' @ str_of_nat (length [[py ''in'', py ''a.pdf'']]) @
           py '' PDFs. Processing with '' @ str_of_nat (WORKERS example_config) @ py '' worker(s).'')
           (example_world\<lparr>files := ?t\<rparr>))) +
      fst (snd (merge_results example_env [py ''in''] [py ''out''] []
        (as_completed example_env [[py ''in'', py ''a.pdf'']]) 0 0
        (print_line (py ''Found '' @ str_of_nat (length [[py ''in'', py ''a.pdf'']]) @
           py '' PDFs. Processing with '' @ str_of_nat (WORKERS example_config) @ py '' worker(s).'')
           (example_world\<lparr>files := ?t\<rparr>)))) = 1"
    using th [OF ne, THEN conjunct2, THEN conjunct2, THEN conjunct2, THEN conjunct2, THEN conjunct1]
    by simp
  have c: "fst (snd (merge_results example_env [py ''in''] [py ''out''] [] [[py ''x.pdf'']] 0 0 example_world)) = Suc 0"
    using th [OF ne, THEN conjunct2, THEN conjunct2, THEN conjunct2, THEN conjunct2, THEN conjunct2]
      raised [unfolded io]
    by blast
  from a b c show ?thesis by blast
qed

section \<open>The stages: properties\<close>

lemma decimal_value_str_of_nat: "decimal_value (str_of_nat n) = n"
proof (induction n rule: str_of_nat.induct)
  case (1 n)
  show ?case
  proof (cases "n < 10")
    case True
    then show ?thesis by (simp add: str_of_nat.simps [of n] decimal_value_def)
  next
    case False
    with 1 have "decimal_value (str_of_nat (n div 10)) = n div 10" by simp
    with False show ?thesis
      by (simp add: str_of_nat.simps [of n] decimal_value_def)
  qed
qed

lemma run_stages_printed_failed:
  assumes "\<not> fst (fst (ocr_to_searchable E pdf (searchable_of d pdf) w))"
  shows "printed (snd (run_stages E pdf d cw w)) = printed w @
     [py ''[ERROR] ocrmypdf failed for '' @ name_of pdf @ py '':'' @ [10] @
      take 400 (strip (snd (fst (ocr_to_searchable E pdf (searchable_of d pdf) w))))]"
proof -
  obtain ok out w1 where r: "ocr_to_searchable E pdf (searchable_of d pdf) w = ((ok, out), w1)"
    by (metis prod.exhaust)
  then have "printed w1 = printed w"
    by (metis ocr_to_searchable_def run_cmd_printed snd_conv)
  with r assms show ?thesis by (simp add: run_stages_def Let_def)
qed

text \<open>
  Claim C9, as amended. In \<open>high_accuracy_ocr_pipeline.py\<close>, for every document whose
  output directory can be made, the only external command run is \<open>ocrmypdf\<close> with
  \<open>--force-ocr --deskew --remove-background --clean --clean-final --rotate-pages
  --image-dpi 400 -l eng\<close>, the document and the searchable copy. When the engine exits
  with a non-zero code, \<open>process_pdf_file\<close> returns \<open>False\<close> and the diagnostic it prints
  is the decoded standard output followed by the decoded standard error, stripped and
  cut to 400 characters.
\<close>


theorem ocr_normalizer_invocation:
  assumes rel: "relative_to pdf root = Inr rel"
    and mk: "mkdir_parents (files w) (out_base @ parent rel) = Inr t"
    and d: "d = out_base @ parent rel"
    and args: "args = [py ''ocrmypdf'', py ''--force-ocr'', py ''--deskew'', py ''--remove-background'',
        py ''--clean'', py ''--clean-final'', py ''--rotate-pages'', py ''--image-dpi'', py ''400'',
        py ''-l'', py ''eng'', str_of_path pdf, str_of_path (searchable_of d pdf)]"
    and r: "r = process_pdf_file E pdf root out_base cw w"
  shows "calls (snd r) = calls w @ [args] \<and>
         (fst (subprocess_run E args t) = Exits rc out err \<and> rc \<noteq> 0 \<longrightarrow>
            fst r = Inr False \<and>
            printed (snd r) = printed w @
              [py ''[START] '' @ name_of pdf,
               py ''[ERROR] ocrmypdf failed for '' @ name_of pdf @ py '':'' @ [10] @
                 take 400 (strip (decode E out @ decode E err))])"
proof -
  let ?w0 = "print_line (py ''[START] '' @ name_of pdf) (w\<lparr>files := t\<rparr>)"
  have a: "args = OCRMYPDF_BASE_ARGS @ [str_of_path pdf, str_of_path (searchable_of d pdf)]"
    by (simp add: args OCRMYPDF_BASE_ARGS_def)
  have req: "r = (Inr (fst (run_stages E pdf d cw ?w0)), snd (run_stages E pdf d cw ?w0))"
    unfolding r d by (rule process_pdf_file_stages [OF rel mk])
  have c: "calls (snd r) = calls w @ [args]"
    by (simp add: req run_stages_calls a)
  have f: "fst r = Inr False \<and>
      printed (snd r) = printed w @
        [py ''[START] '' @ name_of pdf,
         py ''[ERROR] ocrmypdf failed for '' @ name_of pdf @ py '':'' @ [10] @
           take 400 (strip (decode E out @ decode E err))]"
    if x: "fst (subprocess_run E args t) = Exits rc out err" and nz: "rc \<noteq> 0"
  proof -
    have "fst (subprocess_run E args (files ?w0)) = Exits rc out err" using x by simp
    then have o: "fst (ocr_to_searchable E pdf (searchable_of d pdf) ?w0) = (rc = 0, decode E out @ decode E err)"
      unfolding ocr_to_searchable_def a [symmetric] by (rule run_cmd_Exits)
    with nz have n: "\<not> fst (fst (ocr_to_searchable E pdf (searchable_of d pdf) ?w0))" by simp
    show ?thesis
      using run_stages_ocr_failed(1) [OF n, of cw] run_stages_printed_failed [OF n, of cw] o
      by (simp add: req)
  qed
  from c f show ?thesis by blast
qed

theorem ocr_normalizer_invocation_witness:
  "calls (snd (process_pdf_file (example_env\<lparr>subprocess_run := failing_engine\<rparr>)
      [py ''in'', py ''a.pdf''] [py ''in''] [py ''out''] [] example_world)) =
     [[py ''ocrmypdf'', py ''--force-ocr'', py ''--deskew'', py ''--remove-background'',
       py ''--clean'', py ''--clean-final'', py ''--rotate-pages'', py ''--image-dpi'', py ''400'',
       py ''-l'', py ''eng'', str_of_path [py ''in'', py ''a.pdf''],
       str_of_path (searchable_of ([py ''out''] @ parent [py ''a.pdf'']) [py ''in'', py ''a.pdf''])]] \<and>
   fst (process_pdf_file (example_env\<lparr>subprocess_run := failing_engine\<rparr>)
      [py ''in'', py ''a.pdf''] [py ''in''] [py ''out''] [] example_world) = Inr False"
proof -
  have c: "calls example_world = []" by (simp add: example_world_def)
  have x: "fst (subprocess_run (example_env\<lparr>subprocess_run := failing_engine\<rparr>) a t) = Exits 2 [] [98, 97, 100]" for a t
    by (simp add: failing_engine_def)
  have nz: "(2::int) \<noteq> 0" by simp
  note th = ocr_normalizer_invocation [OF example_rel example_mkdir refl refl refl,
      where E = "example_env\<lparr>subprocess_run := failing_engine\<rparr>" and rc = 2 and out = "[]"
        and err = "[98, 97, 100]" and cw = "[]"]
  from th x nz show ?thesis unfolding c by simp
qed

text \<open>
  In \<open>ocr.py\<close> the engine is run with \<open>--deskew --force-ocr\<close> only.
\<close>

theorem process_one_option_set:
  "calls (snd (process_one example_env [py ''in'', py ''a.pdf''] [py ''in''] [py ''out''] example_world)) =
     [[py ''ocrmypdf'', py ''--deskew'', py ''--force-ocr'', py ''/in/a.pdf'', py ''/out/a_searchable.pdf''],
      [py ''pdftotext'', py ''/out/a_searchable.pdf'', py ''/out/a.txt'']] \<and>
   py ''--clean'' \<notin> set (hd (calls (snd (process_one example_env [py ''in'', py ''a.pdf''] [py ''in'']
      [py ''out''] example_world))))"
  by code_simp

text \<open>
  In \<open>ocr.py\<close> the text file holds whatever \<open>pdftotext\<close> wrote: the script adds no
  delimiter line and no sentinel.
\<close>

theorem process_one_text_file:
  "fst (process_one (example_env\<lparr>subprocess_run := pdftotext_like\<rparr>)
      [py ''in'', py ''a.pdf''] [py ''in''] [py ''out''] example_world) = Inr True \<and>
   lookup (files (snd (process_one (example_env\<lparr>subprocess_run := pdftotext_like\<rparr>)
      [py ''in'', py ''a.pdf''] [py ''in''] [py ''out''] example_world))) [py ''out'', py ''a.txt''] =
     Some (File (py ''Hello'' @ [10, 12]))"
  by code_simp

text \<open>
  Claim C7, as amended. In \<open>high_accuracy_ocr_pipeline.py\<close>, when the searchable copy
  opens, every page gives its text and the text file can be opened, the extractor
  succeeds and the text file is the concatenation, over the pages in order, of the line
  \<open>--- PAGE n ---\<close> with the 1-based page number \<open>n\<close> in decimal, then the text of the
  page or, for a page with empty text, the line \<open>[NO TEXT ON PAGE]\<close>, then two line
  feeds.
\<close>


theorem page_delimiters:
  assumes fo: "fitz_open E (str_of_path s) (files w) = Inr (map Inr texts)"
    and op: "open_w (files w) tx = Inr t"
    and r: "r = extract_text_from_searchable E s tx w"
  shows "fst r = Inr () \<and>
         lookup (files (snd r)) tx =
           Some (File (concat (map (\<lambda>(n, text). py ''--- PAGE '' @ str_of_nat n @ py '' ---'' @ [10] @
                    (if text \<noteq> [] then text else py ''[NO TEXT ON PAGE]'' @ [10]) @ [10, 10])
                  (zip [1..<Suc (length texts)] texts)))) \<and>
         decimal_value (str_of_nat n) = n"
proof -
  have "tx \<noteq> []" using op by (rule open_w_nonempty)
  then show ?thesis
    unfolding r extract_texts [OF fo op]
    by (simp add: write_pages_texts lookup_store_same decimal_value_str_of_nat)
qed

theorem page_delimiters_witness:
  "lookup (files (snd (extract_text_from_searchable example_env [py ''out'', py ''a_searchable.pdf'']
      [py ''out'', py ''a.txt''] (example_world\<lparr>files := files example_world @ [([py ''out''], Dir)]\<rparr>))))
      [py ''out'', py ''a.txt''] =
   Some (File (py ''--- PAGE 1 ---'' @ [10] @ py ''H2O the'' @ [10, 10] @
               py ''--- PAGE 2 ---'' @ [10] @ py ''[NO TEXT ON PAGE]'' @ [10, 10, 10]))"
proof -
  let ?w = "example_world\<lparr>files := files example_world @ [([py ''out''], Dir)]\<rparr>"
  have fo: "fitz_open example_env (str_of_path [py ''out'', py ''a_searchable.pdf'']) (files ?w) =
      Inr (map Inr [py ''H2O the'', []])"
    by (simp add: example_env_def)
  have op: "open_w (files ?w) [py ''out'', py ''a.txt''] =
      Inr (AList.update [py ''out'', py ''a.txt''] (File []) (files example_world @ [([py ''out''], Dir)]))"
    by code_simp
  have e: "concat (map (\<lambda>(n, text). py ''--- PAGE '' @ str_of_nat n @ py '' ---'' @ [10] @
                    (if text \<noteq> [] then text else py ''[NO TEXT ON PAGE]'' @ [10]) @ [10, 10])
                  (zip [1..<Suc (length [py ''H2O the'', []])] [py ''H2O the'', []])) =
      py ''--- PAGE 1 ---'' @ [10] @ py ''H2O the'' @ [10, 10] @
               py ''--- PAGE 2 ---'' @ [10] @ py ''[NO TEXT ON PAGE]'' @ [10, 10, 10]"
    by code_simp
  show ?thesis
    using page_delimiters [OF fo op refl, THEN conjunct2, THEN conjunct1] unfolding e .
qed










section \<open>The token classifier: examples and the dictionary\<close>






end
